theory Spec2Isabelle
  imports Complex_Main "HOL-Library.Log_Nat"
begin

section \<open>Values of the JavaScript runtime\<close>

text \<open>
  The middleware of \<^verbatim>\<open>src/index.js\<close> is an Express application with two routes over one
  in-memory cache. Its handlers are embedded as functions from the state of the cache, the
  process environment, the clock and the behaviour of the \<^verbatim>\<open>googleapis\<close> client to the
  response, the new state of the cache and the upstream calls made.

  Strings are lists of HOL characters: the cells of the sheet and the values of the
  environment are read as sequences of code units below 256. Output written by
  \<^verbatim>\<open>console.log\<close> and \<^verbatim>\<open>console.error\<close> is not part of the model.
\<close>

subsection \<open>Numbers\<close>

text \<open>
  A Number is a binary64 value: not-a-number, an infinity, or a sign and a magnitude that is
  a rational representable in binary64 (so \<open>Finite True 0\<close> is the negative zero).
\<close>

datatype number = NaN | Infinity bool | Finite bool rat

definition isNaN :: "number \<Rightarrow> bool" where
  "isNaN v = (v = NaN)"

definition isFinite :: "number \<Rightarrow> bool" where
  "isFinite v = (case v of Finite s q \<Rightarrow> True | _ \<Rightarrow> False)"

definition pow2 :: "int \<Rightarrow> rat" where
  "pow2 k = (if 0 \<le> k then 2 ^ nat k else 1 / 2 ^ nat (- k))"

definition pow10 :: "int \<Rightarrow> rat" where
  "pow10 k = (if 0 \<le> k then 10 ^ nat k else 1 / 10 ^ nat (- k))"

text \<open>The binary exponent of a positive rational \<open>n / d\<close>: the \<open>k\<close> with \<open>2^k \<le> n / d < 2^(k+1)\<close>.\<close>

definition floor_log2 :: "int \<Rightarrow> int \<Rightarrow> int" where
  "floor_log2 n d =
     (let k = bitlen n - bitlen d
      in if pow2 k * of_int d \<le> of_int n then k else k - 1)"

definition round_half_even :: "rat \<Rightarrow> int" where
  "round_half_even x =
     (let f = \<lfloor>x\<rfloor>; r = x - of_int f
      in if r < 1 / 2 then f
         else if 1 / 2 < r then f + 1
         else if even f then f else f + 1)"

text \<open>
  The Number value of a non-negative mathematical value \<open>q\<close> with sign \<open>neg\<close>: \<open>q\<close> is
  rounded to the nearest multiple of the unit in the last place of its binade (53 bits of
  significand, least exponent \<open>-1022\<close>), ties to the even significand, and a result of
  \<open>2^1024\<close> or more is an infinity.
\<close>

definition to_number :: "bool \<Rightarrow> rat \<Rightarrow> number" where
  "to_number neg q =
     (if q = 0 then Finite neg 0
      else
        let (n, d) = quotient_of q;
            e = max (floor_log2 n d) (- 1022);
            ulp = pow2 (e - 52);
            r = of_int (round_half_even (q / ulp)) * ulp
        in if pow2 1024 \<le> r then Infinity neg else Finite neg r)"

subsection \<open>parseFloat\<close>

text \<open>
  \<^verbatim>\<open>parseFloat\<close> strips leading white space and reads the longest prefix that is a
  \<^verbatim>\<open>StrDecimalLiteral\<close>: an optional sign, then \<^verbatim>\<open>Infinity\<close> or decimal digits with an
  optional fraction and an optional exponent. Without such a prefix the result is
  \<^verbatim>\<open>NaN\<close>; whatever follows the prefix is ignored.
\<close>

definition is_whitespace :: "char \<Rightarrow> bool" where
  "is_whitespace c = ((of_char c :: nat) \<in> {9, 10, 11, 12, 13, 32, 160})"

definition is_digit :: "char \<Rightarrow> bool" where
  "is_digit c = (48 \<le> (of_char c :: nat) \<and> (of_char c :: nat) \<le> 57)"

definition digits_value :: "string \<Rightarrow> int" where
  "digits_value ds = foldl (\<lambda>a c. 10 * a + (of_char c - 48)) 0 ds"

text \<open>
  The exponent part at the head of \<open>r\<close>: \<^verbatim>\<open>e\<close> or \<^verbatim>\<open>E\<close>, an optional sign and at least
  one digit. When the digits are missing the literal ends before the \<^verbatim>\<open>e\<close>, and the
  exponent is \<open>0\<close>.
\<close>

definition exponent_part :: "string \<Rightarrow> int" where
  "exponent_part r =
     (case r of
        [] \<Rightarrow> 0
      | c # r' \<Rightarrow>
          if c = CHR ''e'' \<or> c = CHR ''E'' then
            (case r' of
               [] \<Rightarrow> 0
             | s # ds \<Rightarrow>
                 if s = CHR ''-'' then
                   (if takeWhile is_digit ds = [] then 0
                    else - digits_value (takeWhile is_digit ds))
                 else if s = CHR ''+'' then
                   (if takeWhile is_digit ds = [] then 0
                    else digits_value (takeWhile is_digit ds))
                 else
                   (if takeWhile is_digit r' = [] then 0
                    else digits_value (takeWhile is_digit r')))
          else 0)"

definition unsigned_literal :: "bool \<Rightarrow> string \<Rightarrow> number" where
  "unsigned_literal neg u =
     (if take 8 u = ''Infinity'' then Infinity neg
      else
        let ip = takeWhile is_digit u;
            r1 = dropWhile is_digit u;
            fp = (case r1 of
                    [] \<Rightarrow> []
                  | c # r \<Rightarrow> if c = CHR ''.'' then takeWhile is_digit r else []);
            r2 = (case r1 of
                    [] \<Rightarrow> []
                  | c # r \<Rightarrow> if c = CHR ''.'' then dropWhile is_digit r else r1)
        in if ip = [] \<and> fp = [] then NaN
           else to_number neg
                  (of_int (digits_value (ip @ fp)) * pow10 (exponent_part r2 - int (length fp))))"

definition parseFloat :: "string \<Rightarrow> number" where
  "parseFloat s =
     (case dropWhile is_whitespace s of
        [] \<Rightarrow> NaN
      | c # u \<Rightarrow>
          if c = CHR ''-'' then unsigned_literal True u
          else if c = CHR ''+'' then unsigned_literal False u
          else unsigned_literal False (c # u))"

subsection \<open>JSON values and JSON.parse\<close>

text \<open>
  A value that \<^verbatim>\<open>JSON.parse\<close> returns or \<^verbatim>\<open>res.json\<close> sends. An object is the list of its
  members in the order in which they were written; \<open>'s\<close> is the type of its strings.
\<close>

datatype 's json =
    JNull
  | JBool bool
  | JNum number
  | JStr 's
  | JArr "'s json list"
  | JObj "('s \<times> 's json) list"

text \<open>The truth value that \<^verbatim>\<open>if (x)\<close> gives a value.\<close>

fun truthy :: "string json \<Rightarrow> bool" where
  "truthy JNull = False"
| "truthy (JBool b) = b"
| "truthy (JNum v) = (v \<noteq> NaN \<and> v \<noteq> Finite False 0 \<and> v \<noteq> Finite True 0)"
| "truthy (JStr s) = (s \<noteq> [])"
| "truthy (JArr xs) = True"
| "truthy (JObj ms) = True"

definition is_json_ws :: "char \<Rightarrow> bool" where
  "is_json_ws c = ((of_char c :: nat) \<in> {9, 10, 13, 32})"

definition hex_digit :: "char \<Rightarrow> nat option" where
  "hex_digit c =
     (let k = (of_char c :: nat)
      in if 48 \<le> k \<and> k \<le> 57 then Some (k - 48)
         else if 65 \<le> k \<and> k \<le> 70 then Some (k - 55)
         else if 97 \<le> k \<and> k \<le> 102 then Some (k - 87)
         else None)"

definition escape :: "char \<Rightarrow> nat option" where
  "escape c =
     (if c = CHR ''\"'' then Some 34
      else if c = CHR 0x5C then Some 92
      else if c = CHR ''/'' then Some 47
      else if c = CHR ''b'' then Some 8
      else if c = CHR ''f'' then Some 12
      else if c = CHR ''n'' then Some 10
      else if c = CHR ''r'' then Some 13
      else if c = CHR ''t'' then Some 9
      else None)"

text \<open>
  The characters of a string after its opening quote, up to the closing quote: the code
  units of the string and the text that follows it. A string parsed from the text can hold
  any code unit (through \<^verbatim>\<open>\uXXXX\<close>), so its units are natural numbers.
\<close>

fun parse_chars :: "string \<Rightarrow> (nat list \<times> string) option" where
  "parse_chars [] = None"
| "parse_chars (c # r) =
     (if c = CHR ''\"'' then Some ([], r)
      else if c = CHR 0x5C then
        (case r of
           [] \<Rightarrow> None
         | e # r' \<Rightarrow>
             if e = CHR ''u'' then
               (case r' of
                  h1 # h2 # h3 # h4 # r'' \<Rightarrow>
                    (case (hex_digit h1, hex_digit h2, hex_digit h3, hex_digit h4) of
                       (Some a, Some b, Some c, Some d) \<Rightarrow>
                         map_option (\<lambda>(u, t). ((((a * 16 + b) * 16 + c) * 16 + d) # u, t))
                           (parse_chars r'')
                     | _ \<Rightarrow> None)
                | _ \<Rightarrow> None)
             else
               (case escape e of
                  None \<Rightarrow> None
                | Some k \<Rightarrow> map_option (\<lambda>(u, t). (k # u, t)) (parse_chars r')))
      else if (of_char c :: nat) < 32 then None
      else map_option (\<lambda>(u, t). (of_char c # u, t)) (parse_chars r))"

text \<open>
  A JSON number: an optional minus, an integer part without a superfluous leading zero,
  an optional fraction and an optional exponent, each with at least one digit.
\<close>

definition json_exponent :: "string \<Rightarrow> (int \<times> string) option" where
  "json_exponent r =
     (case r of
        [] \<Rightarrow> Some (0, r)
      | c # r' \<Rightarrow>
          if c = CHR ''e'' \<or> c = CHR ''E'' then
            (case r' of
               [] \<Rightarrow> None
             | s # ds \<Rightarrow>
                 if s = CHR ''-'' then
                   (if takeWhile is_digit ds = [] then None
                    else Some (- digits_value (takeWhile is_digit ds), dropWhile is_digit ds))
                 else if s = CHR ''+'' then
                   (if takeWhile is_digit ds = [] then None
                    else Some (digits_value (takeWhile is_digit ds), dropWhile is_digit ds))
                 else
                   (if takeWhile is_digit r' = [] then None
                    else Some (digits_value (takeWhile is_digit r'), dropWhile is_digit r')))
          else Some (0, r))"

definition parse_number :: "string \<Rightarrow> (number \<times> string) option" where
  "parse_number s =
     (let neg = (take 1 s = ''-'');
          u = (if neg then drop 1 s else s);
          ip = takeWhile is_digit u;
          r1 = dropWhile is_digit u
      in if ip = [] \<or> (1 < length ip \<and> take 1 ip = ''0'') then None
         else
           let dot = (take 1 r1 = ''.'');
               fp = (if dot then takeWhile is_digit (drop 1 r1) else []);
               r2 = (if dot then dropWhile is_digit (drop 1 r1) else r1)
           in if dot \<and> fp = [] then None
              else
                (case json_exponent r2 of
                   None \<Rightarrow> None
                 | Some (ex, r3) \<Rightarrow>
                     Some (to_number neg
                             (of_int (digits_value (ip @ fp)) * pow10 (ex - int (length fp))),
                           r3)))"

text \<open>
  The recursive descent over values, the elements of an array and the members of an
  object. The first argument bounds the depth of the calls; \<open>JSON_parse\<close> starts with a
  bound that no text exhausts (\<open>parse_value_fuel\<close> below).
\<close>

fun parse_value :: "nat \<Rightarrow> string \<Rightarrow> (nat list json \<times> string) option"
  and parse_elements :: "nat \<Rightarrow> string \<Rightarrow> (nat list json list \<times> string) option"
  and parse_members :: "nat \<Rightarrow> string \<Rightarrow> ((nat list \<times> nat list json) list \<times> string) option"
where
  "parse_value 0 s = None"
| "parse_value (Suc n) s =
     (case dropWhile is_json_ws s of
        [] \<Rightarrow> None
      | c # r \<Rightarrow>
          if c = CHR ''{'' then
            (case dropWhile is_json_ws r of
               [] \<Rightarrow> None
             | d # r' \<Rightarrow>
                 if d = CHR ''}'' then Some (JObj [], r')
                 else map_option (\<lambda>(ms, t). (JObj ms, t)) (parse_members n r))
          else if c = CHR ''['' then
            (case dropWhile is_json_ws r of
               [] \<Rightarrow> None
             | d # r' \<Rightarrow>
                 if d = CHR '']'' then Some (JArr [], r')
                 else map_option (\<lambda>(vs, t). (JArr vs, t)) (parse_elements n r))
          else if c = CHR ''\"'' then map_option (\<lambda>(u, t). (JStr u, t)) (parse_chars r)
          else if c = CHR ''-'' \<or> is_digit c then
            map_option (\<lambda>(v, t). (JNum v, t)) (parse_number (c # r))
          else if take 4 (c # r) = ''true'' then Some (JBool True, drop 4 (c # r))
          else if take 5 (c # r) = ''false'' then Some (JBool False, drop 5 (c # r))
          else if take 4 (c # r) = ''null'' then Some (JNull, drop 4 (c # r))
          else None)"
| "parse_elements 0 s = None"
| "parse_elements (Suc n) s =
     (case parse_value n s of
        None \<Rightarrow> None
      | Some (v, r) \<Rightarrow>
          (case dropWhile is_json_ws r of
             [] \<Rightarrow> None
           | c # r' \<Rightarrow>
               if c = CHR '','' then map_option (\<lambda>(vs, t). (v # vs, t)) (parse_elements n r')
               else if c = CHR '']'' then Some ([v], r')
               else None))"
| "parse_members 0 s = None"
| "parse_members (Suc n) s =
     (case dropWhile is_json_ws s of
        [] \<Rightarrow> None
      | q # r \<Rightarrow>
          if q = CHR ''\"'' then
            (case parse_chars r of
               None \<Rightarrow> None
             | Some (k, r1) \<Rightarrow>
                 (case dropWhile is_json_ws r1 of
                    [] \<Rightarrow> None
                  | c # r2 \<Rightarrow>
                      if c = CHR '':'' then
                        (case parse_value n r2 of
                           None \<Rightarrow> None
                         | Some (v, r3) \<Rightarrow>
                             (case dropWhile is_json_ws r3 of
                                [] \<Rightarrow> None
                              | d # r4 \<Rightarrow>
                                  if d = CHR '','' then
                                    map_option (\<lambda>(ms, t). ((k, v) # ms, t)) (parse_members n r4)
                                  else if d = CHR ''}'' then Some ([(k, v)], r4)
                                  else None))
                      else None))
          else None)"

text \<open>
  \<^verbatim>\<open>JSON.parse(text)\<close>: one value, with white space around it and nothing after it.
  \<open>None\<close> is the \<^verbatim>\<open>SyntaxError\<close> that it throws.
\<close>

definition JSON_parse :: "string \<Rightarrow> nat list json option" where
  "JSON_parse s =
     (case parse_value (2 * length s + 1) s of
        None \<Rightarrow> None
      | Some (v, r) \<Rightarrow> if dropWhile is_json_ws r = [] then Some v else None)"

section \<open>The process and its collaborators\<close>

subsection \<open>Environment\<close>

text \<open>The variables of \<^verbatim>\<open>process.env\<close> that the handlers read; \<open>None\<close> is an unset variable.\<close>

record env =
  GOOGLE_CREDENTIALS :: "string option"
  SHEET_ID :: "string option"
  SHEET_RANGE :: "string option"

text \<open>\<^verbatim>\<open>a || b\<close> on a string that may be undefined: the empty string is falsy too.\<close>

definition or_else :: "string option \<Rightarrow> string \<Rightarrow> string" where
  "or_else a b = (case a of None \<Rightarrow> b | Some s \<Rightarrow> if s = [] then b else s)"

subsection \<open>The googleapis client\<close>

text \<open>
  The objects that \<^verbatim>\<open>new google.auth.GoogleAuth\<close> and \<^verbatim>\<open>google.sheets\<close> build hold the
  options they were given. What the library does is a parameter of the model: whether a
  constructor throws, and how \<^verbatim>\<open>spreadsheets.values.get\<close> settles (after how many
  milliseconds, and rejected with an error or resolved with a response whose
  \<^verbatim>\<open>data.values\<close> is a list of rows of cells or is missing).
\<close>

datatype error = Error (message: string)

datatype auth = GoogleAuth (credentials_of: "nat list json") (scopes_of: "string list")

datatype sheets = Sheets (version_of: string) (auth_of: auth)

type_synonym row = "string list"

datatype reply = Rejected error | Resolved "row list option"

record googleapis =
  GoogleAuth_throws :: "auth \<Rightarrow> error option"
  sheets_throws :: "sheets \<Rightarrow> error option"
  values_get :: "sheets \<Rightarrow> string option \<Rightarrow> string \<Rightarrow> nat \<times> reply"

subsection \<open>The cache\<close>

text \<open>
  \<^verbatim>\<open>new NodeCache({ stdTTL: 300 })\<close>: every key holds a value and the time, in milliseconds,
  after which it has expired (\<open>0\<close>: never). \<^verbatim>\<open>get\<close> takes an expired entry as absent.
  The state is the stored entries; the hit and miss counters of the cache and the moment at
  which it drops an expired entry from its table are not part of it.
\<close>

type_synonym cache = "string \<rightharpoonup> (string json \<times> nat)"

definition stdTTL :: nat where
  "stdTTL = 300"

definition cache_get :: "nat \<Rightarrow> string \<Rightarrow> cache \<Rightarrow> string json option" where
  "cache_get now key c =
     (case c key of
        None \<Rightarrow> None
      | Some (v, t) \<Rightarrow> if t \<noteq> 0 \<and> t < now then None else Some v)"

definition cache_set :: "nat \<Rightarrow> string \<Rightarrow> string json \<Rightarrow> cache \<Rightarrow> cache" where
  "cache_set now key v c = c(key \<mapsto> (v, if stdTTL = 0 then 0 else now + stdTTL * 1000))"

definition cache_del :: "string \<Rightarrow> cache \<Rightarrow> cache" where
  "cache_del key c = c(key := None)"

subsection \<open>Responses\<close>

text \<open>
  A response is the status, the headers that the handler sets itself, and the value given
  to \<^verbatim>\<open>res.json\<close>. A handler returns it with the cache it leaves and the upstream calls
  it made (spreadsheet id and range of each).
\<close>

record response =
  status :: nat
  headers :: "(string \<times> string) list"
  body :: "string json"

record outcome =
  resp :: response
  store :: cache
  calls :: "(string option \<times> string) list"



section \<open>The handlers\<close>

subsection \<open>initializeGoogleSheets\<close>

text \<open>
  The credentials are parsed from \<^verbatim>\<open>process.env.GOOGLE_CREDENTIALS || '{}'\<close>; whatever is
  thrown while parsing or constructing is caught, and the result is \<^verbatim>\<open>null\<close> (\<open>None\<close>).
\<close>

definition initializeGoogleSheets :: "googleapis \<Rightarrow> env \<Rightarrow> sheets option" where
  "initializeGoogleSheets g e =
     (case JSON_parse (or_else (GOOGLE_CREDENTIALS e) ''{}'') of
        None \<Rightarrow> None
      | Some credentials \<Rightarrow>
          let auth = GoogleAuth credentials
                       [''https://www.googleapis.com/auth/spreadsheets.readonly'']
          in (case GoogleAuth_throws g auth of
                Some err \<Rightarrow> None
              | None \<Rightarrow>
                  (case sheets_throws g (Sheets ''v4'' auth) of
                     Some err \<Rightarrow> None
                   | None \<Rightarrow> Some (Sheets ''v4'' auth))))"

subsection \<open>Formatting the rows\<close>

text \<open>\<^verbatim>\<open>row[i]\<close>: \<^verbatim>\<open>undefined\<close> (\<open>None\<close>) beyond the end of the row.\<close>

definition cell :: "row \<Rightarrow> nat \<Rightarrow> string option" where
  "cell r i = (if i < length r then Some (r ! i) else None)"

text \<open>The body of the \<^verbatim>\<open>forEach\<close>: what one row does to \<^verbatim>\<open>formattedData.c\<close>.\<close>

definition push_row :: "number list \<Rightarrow> row \<Rightarrow> number list" where
  "push_row acc r =
     (case cell r 1 of
        None \<Rightarrow> acc
      | Some s \<Rightarrow>
          if s \<noteq> [] then
            (let v = parseFloat s in if \<not> isNaN v then acc @ [v] else acc)
          else acc)"

definition dataRows :: "row list \<Rightarrow> row list" where
  "dataRows vals = drop 1 vals"

definition formatted_c :: "row list \<Rightarrow> number list" where
  "formatted_c vals = foldl push_row [] (dataRows vals)"

definition formattedData :: "row list \<Rightarrow> string json" where
  "formattedData vals = JObj [(''s'', JStr ''ok''), (''c'', JArr (map JNum (formatted_c vals)))]"

subsection \<open>GET /api/sheet-data\<close>

definition mockData :: "string json" where
  "mockData =
     JObj [(''s'', JStr ''ok''),
           (''c'', JArr (map (\<lambda>k. JNum (Finite False (of_int k)))
                      [100, 105, 95, 110, 115, 105, 100, 90, 95, 120]))]"

definition json_response :: "nat \<Rightarrow> (string \<times> string) list \<Rightarrow> string json \<Rightarrow> response" where
  "json_response st hs b = \<lparr>status = st, headers = hs, body = b\<rparr>"

text \<open>The handler after a miss of the cache, from \<^verbatim>\<open>initializeGoogleSheets()\<close> on.\<close>

definition fetch_fresh :: "googleapis \<Rightarrow> env \<Rightarrow> nat \<Rightarrow> cache \<Rightarrow> outcome" where
  "fetch_fresh g e now c =
     (case initializeGoogleSheets g e of
        None \<Rightarrow> \<lparr>resp = json_response 200 [] mockData, store = c, calls = []\<rparr>
      | Some sh \<Rightarrow>
          let sheetId = SHEET_ID e;
              range = or_else (SHEET_RANGE e) ''Sheet1!A:B''
          in (case values_get g sh sheetId range of
                (took, Rejected err) \<Rightarrow>
                  \<lparr>resp = json_response 500 []
                            (JObj [(''error'', JStr ''Failed to fetch data from Google Sheets''),
                                   (''details'', JStr (message err))]),
                   store = c, calls = [(sheetId, range)]\<rparr>
              | (took, Resolved data) \<Rightarrow>
                  let vals = (case data of None \<Rightarrow> [] | Some rows \<Rightarrow> rows)
                  in if length vals = 0 then
                       \<lparr>resp = json_response 404 []
                                 (JObj [(''error'', JStr ''No data found in spreadsheet'')]),
                        store = c, calls = [(sheetId, range)]\<rparr>
                     else
                       \<lparr>resp = json_response 200 [(''Access-Control-Allow-Origin'', ''*'')]
                                 (formattedData vals),
                        store = cache_set (now + took) ''sheetData'' (formattedData vals) c,
                        calls = [(sheetId, range)]\<rparr>))"

definition sheet_data :: "googleapis \<Rightarrow> env \<Rightarrow> nat \<Rightarrow> cache \<Rightarrow> outcome" where
  "sheet_data g e now c =
     (case cache_get now ''sheetData'' c of
        None \<Rightarrow> fetch_fresh g e now c
      | Some cachedData \<Rightarrow>
          if truthy cachedData
          then \<lparr>resp = json_response 200 [] cachedData, store = c, calls = []\<rparr>
          else fetch_fresh g e now c)"

subsection \<open>GET /api/refresh-cache\<close>

definition refresh_cache :: "cache \<Rightarrow> outcome" where
  "refresh_cache c =
     \<lparr>resp = json_response 200 [] (JObj [(''status'', JStr ''Cache cleared'')]),
      store = cache_del ''sheetData'' c, calls = []\<rparr>"

section \<open>Notions used in the statements\<close>

text \<open>
  The lookup at the head of the handler misses when the key is absent or expired, or when
  the value stored under it is falsy.
\<close>

definition cache_miss :: "nat \<Rightarrow> cache \<Rightarrow> bool" where
  "cache_miss now c =
     (case cache_get now ''sheetData'' c of None \<Rightarrow> True | Some v \<Rightarrow> \<not> truthy v)"

text \<open>
  The formatter as the specification words it: the first row is dropped, and a later row
  gives the parse of its cell at index 1 when that cell is defined, not empty and parses as
  a finite number.
\<close>

definition spec_formatter :: "row list \<Rightarrow> number list" where
  "spec_formatter rows =
     map (\<lambda>r. parseFloat (r ! 1))
       (filter (\<lambda>r. 1 < length r \<and> r ! 1 \<noteq> [] \<and> isFinite (parseFloat (r ! 1))) (tl rows))"






text \<open>
  Sample collaborators: a library whose constructors do not throw (as those of
  \<^verbatim>\<open>googleapis\<close> do not) and whose read settles after \<open>took\<close> milliseconds with the reply
  \<open>rp\<close>; an environment with the given \<^verbatim>\<open>GOOGLE_CREDENTIALS\<close>, a sheet id and no range;
  and the client that is built when the credentials are unset.
\<close>

definition library :: "nat \<Rightarrow> reply \<Rightarrow> googleapis" where
  "library took rp =
     \<lparr>GoogleAuth_throws = (\<lambda>a. None), sheets_throws = (\<lambda>s. None),
      values_get = (\<lambda>sh i r. (took, rp))\<rparr>"

definition env_of :: "string option \<Rightarrow> env" where
  "env_of cr = \<lparr>GOOGLE_CREDENTIALS = cr, SHEET_ID = Some ''sheet-1'', SHEET_RANGE = None\<rparr>"

definition unset_client :: sheets where
  "unset_client =
     Sheets ''v4'' (GoogleAuth (JObj []) [''https://www.googleapis.com/auth/spreadsheets.readonly''])"

section \<open>Properties of the handlers\<close>

subsection \<open>Evaluations\<close>

lemma JSON_parse_empty_object: "JSON_parse ''{}'' = Some (JObj [])"
  by code_simp

lemma JSON_parse_malformed: "JSON_parse ''not json'' = None"
  by code_simp

lemma parseFloat_Infinity: "parseFloat ''Infinity'' = Infinity False"
  by code_simp

lemma formatted_c_example:
  "formatted_c [[''Date'', ''Price''], [''2024-01-01'', ''100''], [''2024-01-02'', ''abc''],
                [''2024-01-03'', '''']] = [Finite False 100]"
  by code_simp

lemma values_get_library: "values_get (library took rp) sh i r = (took, rp)"
  by (simp add: library_def)

lemma env_of_range:
  "SHEET_ID (env_of cr) = Some ''sheet-1'' \<and>
   or_else (SHEET_RANGE (env_of cr)) ''Sheet1!A:B'' = ''Sheet1!A:B''"
  by (simp add: env_of_def or_else_def)

lemma init_unset: "initializeGoogleSheets (library took rp) (env_of None) = Some unset_client"
  by (simp add: initializeGoogleSheets_def library_def env_of_def or_else_def
        JSON_parse_empty_object unset_client_def)

lemma init_malformed: "initializeGoogleSheets g (env_of (Some ''not json'')) = None"
  by (simp add: initializeGoogleSheets_def env_of_def or_else_def JSON_parse_malformed)

text \<open>
  \<^verbatim>\<open>initializeGoogleSheets\<close> returns \<^verbatim>\<open>null\<close> exactly when the text parsed is not JSON or
  one of the two constructors throws.
\<close>

lemma initializeGoogleSheets_None_iff:
  "initializeGoogleSheets g e = None \<longleftrightarrow>
     (case JSON_parse (or_else (GOOGLE_CREDENTIALS e) ''{}'') of
        None \<Rightarrow> True
      | Some cr \<Rightarrow>
          GoogleAuth_throws g
              (GoogleAuth cr [''https://www.googleapis.com/auth/spreadsheets.readonly'']) \<noteq> None \<or>
          sheets_throws g
              (Sheets ''v4''
                 (GoogleAuth cr [''https://www.googleapis.com/auth/spreadsheets.readonly''])) \<noteq> None)"
  by (auto simp add: initializeGoogleSheets_def Let_def split: option.splits)

subsection \<open>The bound of the JSON parser\<close>

text \<open>
  Every successful parse consumes text, so the depth of the calls on a text of length \<open>l\<close>
  stays below \<open>2 * l + 1\<close>: from that bound on, the result of \<open>parse_value\<close> does not
  depend on the bound, and \<open>None\<close> from \<open>JSON_parse\<close> is a syntax error of the text.
\<close>

lemma dropWhile_Cons_shorter: "dropWhile P s = c # r \<Longrightarrow> length r < length s"
proof -
  assume h: "dropWhile P s = c # r"
  have "length (dropWhile P s) \<le> length s" by (rule length_dropWhile_le)
  with h show ?thesis by simp
qed

lemma map_option_pair:
  "map_option (\<lambda>(u, t). (f u, t)) x = Some (a, b) \<Longrightarrow> \<exists>u. x = Some (u, b) \<and> a = f u"
  by (cases x) auto

lemma parse_chars_shorter: "parse_chars s = Some (u, t) \<Longrightarrow> length t < length s"
proof (induction "length s" arbitrary: s u t rule: less_induct)
  case less
  show ?case
  proof (cases s)
    case Nil
    with less.prems show ?thesis by simp
  next
    case (Cons c r)
    have IH: "\<And>s' u' t'. length s' < length s \<Longrightarrow> parse_chars s' = Some (u', t') \<Longrightarrow> length t' < length s'"
      using less.hyps by blast
    from less.prems Cons show ?thesis
      apply (simp split: if_splits list.splits option.splits prod.splits)
      apply (auto dest!: map_option_pair dest: IH [rotated])
      done
  qed
qed

lemma json_exponent_le: "json_exponent r = Some (ex, t) \<Longrightarrow> length t \<le> length r"
  by (auto simp add: json_exponent_def length_dropWhile_le le_SucI
      split: list.splits if_splits)

lemma takeWhile_nonempty_shorter: "takeWhile P u \<noteq> [] \<Longrightarrow> length (dropWhile P u) < length u"
proof -
  assume "takeWhile P u \<noteq> []"
  then have "0 < length (takeWhile P u)" by simp
  moreover have "length (takeWhile P u) + length (dropWhile P u) = length u"
    by (metis length_append takeWhile_dropWhile_id)
  ultimately show ?thesis by linarith
qed

lemma parse_number_shorter: "parse_number s = Some (v, t) \<Longrightarrow> length t < length s"
proof -
  assume h: "parse_number s = Some (v, t)"
  define u where "u = (if take 1 s = ''-'' then drop 1 s else s)"
  define r1 where "r1 = dropWhile is_digit u"
  define r2 where "r2 = (if take 1 r1 = ''.'' then dropWhile is_digit (drop 1 r1) else r1)"
  from h have ip: "takeWhile is_digit u \<noteq> []"
    by (auto simp add: parse_number_def Let_def u_def split: if_splits)
  from h obtain ex where ex: "json_exponent r2 = Some (ex, t)"
    by (auto simp add: parse_number_def Let_def u_def r1_def r2_def split: if_splits option.splits)
  have "length t \<le> length r2" using ex by (rule json_exponent_le)
  moreover have "length r2 \<le> length r1"
    by (simp add: r2_def le_trans [OF length_dropWhile_le])
  moreover have "length r1 < length u" unfolding r1_def using ip by (rule takeWhile_nonempty_shorter)
  moreover have "length u \<le> length s" by (simp add: u_def)
  ultimately show ?thesis by linarith
qed


lemma parse_value_Suc_shorter:
  assumes m: "\<And>s ms t. parse_members n s = Some (ms, t) \<Longrightarrow> length t < length s"
    and e: "\<And>s vs t. parse_elements n s = Some (vs, t) \<Longrightarrow> length t < length s"
    and h: "parse_value (Suc n) s = Some (v, t)"
  shows "length t < length s"
proof (cases "dropWhile is_json_ws s")
  case Nil
  with h show ?thesis by simp
next
  case (Cons c r)
  then have r: "length r < length s" by (rule dropWhile_Cons_shorter)
  have "length t \<le> length r"
  proof (cases "dropWhile is_json_ws r")
    case Nil
    with h Cons show ?thesis
      by (auto simp add: less_imp_le simp del: dropWhile_eq_Nil_conv split: if_splits
            dest!: map_option_pair parse_chars_shorter parse_number_shorter)
  next
    case (Cons d r')
    then have "length r' < length r" by (rule dropWhile_Cons_shorter)
    with h \<open>dropWhile is_json_ws s = c # r\<close> Cons show ?thesis
      by (auto simp add: less_imp_le split: if_splits
            dest!: map_option_pair parse_chars_shorter parse_number_shorter m e)
  qed
  with r show ?thesis by simp
qed


lemma parse_elements_Suc_shorter:
  assumes v: "\<And>s v t. parse_value n s = Some (v, t) \<Longrightarrow> length t < length s"
    and e: "\<And>s vs t. parse_elements n s = Some (vs, t) \<Longrightarrow> length t < length s"
    and h: "parse_elements (Suc n) s = Some (vs, t)"
  shows "length t < length s"
proof (cases "parse_value n s")
  case None
  with h show ?thesis by simp
next
  case (Some p)
  obtain x r where p: "p = (x, r)" by (cases p)
  with Some have r: "length r < length s" by (simp add: v)
  show ?thesis
  proof (cases "dropWhile is_json_ws r")
    case Nil
    with h Some p show ?thesis by (simp del: dropWhile_eq_Nil_conv)
  next
    case (Cons c r')
    then have "length r' < length r" by (rule dropWhile_Cons_shorter)
    moreover have "length t \<le> length r'"
      using h Some p Cons
      by (auto simp add: less_imp_le split: if_splits dest!: map_option_pair e)
    ultimately show ?thesis using r by simp
  qed
qed

lemma parse_members_Suc_shorter:
  assumes v: "\<And>s v t. parse_value n s = Some (v, t) \<Longrightarrow> length t < length s"
    and m: "\<And>s ms t. parse_members n s = Some (ms, t) \<Longrightarrow> length t < length s"
    and h: "parse_members (Suc n) s = Some (ms, t)"
  shows "length t < length s"
proof (cases "dropWhile is_json_ws s")
  case Nil
  with h show ?thesis by (simp del: dropWhile_eq_Nil_conv)
next
  case s: (Cons q r)
  then have r: "length r < length s" by (rule dropWhile_Cons_shorter)
  show ?thesis
  proof (cases "parse_chars r")
    case None
    with h s show ?thesis by (simp split: if_splits)
  next
    case (Some p)
    obtain k r1 where p: "p = (k, r1)" by (cases p)
    with Some have r1: "length r1 < length r" by (simp add: parse_chars_shorter)
    show ?thesis
    proof (cases "dropWhile is_json_ws r1")
      case Nil
      with h s Some p show ?thesis by (simp del: dropWhile_eq_Nil_conv split: if_splits)
    next
      case c: (Cons c r2)
      then have r2: "length r2 < length r1" by (rule dropWhile_Cons_shorter)
      show ?thesis
      proof (cases "parse_value n r2")
        case None
        with h s Some p c show ?thesis by (simp split: if_splits)
      next
        case pv: (Some p')
        obtain x r3 where p': "p' = (x, r3)" by (cases p')
        with pv have r3: "length r3 < length r2" by (simp add: v)
        show ?thesis
        proof (cases "dropWhile is_json_ws r3")
          case Nil
          with h s Some p c pv p' show ?thesis
            by (simp del: dropWhile_eq_Nil_conv split: if_splits)
        next
          case d: (Cons d r4)
          then have "length r4 < length r3" by (rule dropWhile_Cons_shorter)
          moreover have "length t \<le> length r4"
            using h s Some p c pv p' d
            by (auto simp add: less_imp_le split: if_splits dest!: map_option_pair m)
          ultimately show ?thesis using r r1 r2 r3 by simp
        qed
      qed
    qed
  qed
qed

lemma parse_shorter:
  "(\<forall>s v t. parse_value n s = Some (v, t) \<longrightarrow> length t < length s) \<and>
   (\<forall>s vs t. parse_elements n s = Some (vs, t) \<longrightarrow> length t < length s) \<and>
   (\<forall>s ms t. parse_members n s = Some (ms, t) \<longrightarrow> length t < length s)"
proof (induction n)
  case 0
  show ?case by simp
next
  case (Suc n)
  show ?case
  proof (intro conjI allI impI)
    fix s v t assume "parse_value (Suc n) s = Some (v, t)"
    with Suc show "length t < length s" by (blast intro: parse_value_Suc_shorter)
  next
    fix s vs t assume "parse_elements (Suc n) s = Some (vs, t)"
    with Suc show "length t < length s" by (blast intro: parse_elements_Suc_shorter)
  next
    fix s ms t assume "parse_members (Suc n) s = Some (ms, t)"
    with Suc show "length t < length s" by (blast intro: parse_members_Suc_shorter)
  qed
qed

lemma parse_value_shorter: "parse_value n s = Some (v, t) \<Longrightarrow> length t < length s"
  using parse_shorter [of n] by blast


lemma parse_value_Suc_fuel:
  assumes m: "\<And>s. 2 * length s + 2 \<le> n \<Longrightarrow> parse_members (Suc n) s = parse_members n s"
    and e: "\<And>s. 2 * length s + 2 \<le> n \<Longrightarrow> parse_elements (Suc n) s = parse_elements n s"
    and b: "2 * length s + 1 \<le> Suc n"
  shows "parse_value (Suc (Suc n)) s = parse_value (Suc n) s"
proof (cases "dropWhile is_json_ws s")
  case Nil
  then show ?thesis by (simp del: dropWhile_eq_Nil_conv)
next
  case (Cons c r)
  then have "length r < length s" by (rule dropWhile_Cons_shorter)
  with b have "2 * length r + 2 \<le> n" by simp
  then have "parse_members (Suc n) r = parse_members n r"
    and "parse_elements (Suc n) r = parse_elements n r"
    by (simp_all only: m e)
  with Cons show ?thesis
    by (simp del: parse_members.simps parse_elements.simps cong: if_cong list.case_cong)
qed

lemma parse_elements_Suc_fuel:
  assumes v: "\<And>s. 2 * length s + 1 \<le> n \<Longrightarrow> parse_value (Suc n) s = parse_value n s"
    and e: "\<And>s. 2 * length s + 2 \<le> n \<Longrightarrow> parse_elements (Suc n) s = parse_elements n s"
    and b: "2 * length s + 2 \<le> Suc n"
  shows "parse_elements (Suc (Suc n)) s = parse_elements (Suc n) s"
proof -
  from b have "2 * length s + 1 \<le> n" by simp
  then have pv: "parse_value (Suc n) s = parse_value n s" by (rule v)
  show ?thesis
  proof (cases "parse_value n s")
    case None
    with pv show ?thesis by (simp del: parse_value.simps)
  next
    case (Some p)
    obtain x r where p: "p = (x, r)" by (cases p)
    with Some have r: "length r < length s" by (simp add: parse_value_shorter)
    show ?thesis
    proof (cases "dropWhile is_json_ws r")
      case Nil
      with pv Some p show ?thesis
        by (simp del: parse_value.simps dropWhile_eq_Nil_conv)
    next
      case (Cons c r')
      then have "length r' < length r" by (rule dropWhile_Cons_shorter)
      with r b have "2 * length r' + 2 \<le> n" by simp
      then have "parse_elements (Suc n) r' = parse_elements n r'" by (rule e)
      with pv Some p Cons show ?thesis
        by (simp del: parse_value.simps)
    qed
  qed
qed

lemma parse_members_Suc_fuel:
  assumes v: "\<And>s. 2 * length s + 1 \<le> n \<Longrightarrow> parse_value (Suc n) s = parse_value n s"
    and m: "\<And>s. 2 * length s + 2 \<le> n \<Longrightarrow> parse_members (Suc n) s = parse_members n s"
    and b: "2 * length s + 2 \<le> Suc n"
  shows "parse_members (Suc (Suc n)) s = parse_members (Suc n) s"
proof (cases "dropWhile is_json_ws s")
  case Nil
  then show ?thesis by (simp del: dropWhile_eq_Nil_conv)
next
  case s: (Cons q r)
  then have r: "length r < length s" by (rule dropWhile_Cons_shorter)
  show ?thesis
  proof (cases "parse_chars r")
    case None
    with s show ?thesis by simp
  next
    case (Some p)
    obtain k r1 where p: "p = (k, r1)" by (cases p)
    with Some have r1: "length r1 < length r" by (simp add: parse_chars_shorter)
    show ?thesis
    proof (cases "dropWhile is_json_ws r1")
      case Nil
      with s Some p show ?thesis by (simp del: dropWhile_eq_Nil_conv)
    next
      case c: (Cons c r2)
      then have r2: "length r2 < length r1" by (rule dropWhile_Cons_shorter)
      with r r1 b have "2 * length r2 + 1 \<le> n" by simp
      then have pv: "parse_value (Suc n) r2 = parse_value n r2" by (rule v)
      show ?thesis
      proof (cases "parse_value n r2")
        case None
        with s Some p c pv show ?thesis by (simp del: parse_value.simps)
      next
        case pv': (Some p')
        obtain x r3 where p': "p' = (x, r3)" by (cases p')
        with pv' have r3: "length r3 < length r2" by (simp add: parse_value_shorter)
        show ?thesis
        proof (cases "dropWhile is_json_ws r3")
          case Nil
          with s Some p c pv pv' p' show ?thesis
            by (simp del: parse_value.simps dropWhile_eq_Nil_conv)
        next
          case d: (Cons d r4)
          then have "length r4 < length r3" by (rule dropWhile_Cons_shorter)
          with r r1 r2 r3 b have "2 * length r4 + 2 \<le> n" by simp
          then have "parse_members (Suc n) r4 = parse_members n r4" by (rule m)
          with s Some p c pv pv' p' d show ?thesis
            by (simp del: parse_value.simps)
        qed
      qed
    qed
  qed
qed

lemma parse_fuel_Suc:
  "(\<forall>s. 2 * length s + 1 \<le> n \<longrightarrow> parse_value (Suc n) s = parse_value n s) \<and>
   (\<forall>s. 2 * length s + 2 \<le> n \<longrightarrow> parse_elements (Suc n) s = parse_elements n s) \<and>
   (\<forall>s. 2 * length s + 2 \<le> n \<longrightarrow> parse_members (Suc n) s = parse_members n s)"
proof (induction n)
  case 0
  show ?case by simp
next
  case (Suc n)
  show ?case
  proof (intro conjI allI impI)
    fix s :: string assume "2 * length s + 1 \<le> Suc n"
    with Suc show "parse_value (Suc (Suc n)) s = parse_value (Suc n) s"
      by (intro parse_value_Suc_fuel) blast+
  next
    fix s :: string assume "2 * length s + 2 \<le> Suc n"
    with Suc show "parse_elements (Suc (Suc n)) s = parse_elements (Suc n) s"
      by (intro parse_elements_Suc_fuel) blast+
  next
    fix s :: string assume "2 * length s + 2 \<le> Suc n"
    with Suc show "parse_members (Suc (Suc n)) s = parse_members (Suc n) s"
      by (intro parse_members_Suc_fuel) blast+
  qed
qed

lemma parse_value_fuel:
  "2 * length s + 1 \<le> n \<Longrightarrow> parse_value n s = parse_value (2 * length s + 1) s"
proof (induction n)
  case 0
  then show ?case by simp
next
  case (Suc n)
  show ?case
  proof (cases "2 * length s + 1 \<le> n")
    case True
    then have "parse_value (Suc n) s = parse_value n s"
      using parse_fuel_Suc [of n] by blast
    with True Suc.IH show ?thesis by simp
  next
    case False
    with Suc.prems have "Suc n = 2 * length s + 1" by simp
    then show ?thesis by (simp only:)
  qed
qed

subsection \<open>The branches of the handler\<close>

lemma sheet_data_miss: "cache_miss now c \<Longrightarrow> sheet_data g e now c = fetch_fresh g e now c"
  by (simp add: cache_miss_def sheet_data_def split: option.splits)

lemma sheet_data_hit:
  "\<not> cache_miss now c \<Longrightarrow>
   sheet_data g e now c =
     \<lparr>resp = json_response 200 [] (the (cache_get now ''sheetData'' c)), store = c, calls = []\<rparr>"
  by (simp add: cache_miss_def sheet_data_def split: option.splits)

lemma sheet_data_cached:
  "cache_get now ''sheetData'' c = Some v \<Longrightarrow> truthy v \<Longrightarrow>
   sheet_data g e now c = \<lparr>resp = json_response 200 [] v, store = c, calls = []\<rparr>"
  by (simp add: sheet_data_def)

lemma cache_miss_empty: "cache_miss now Map.empty"
  by (simp add: cache_miss_def cache_get_def)

lemma fetch_fresh_mock:
  "initializeGoogleSheets g e = None \<Longrightarrow>
   fetch_fresh g e now c = \<lparr>resp = json_response 200 [] mockData, store = c, calls = []\<rparr>"
  by (simp add: fetch_fresh_def)

lemma fetch_fresh_rejected:
  "initializeGoogleSheets g e = Some sh \<Longrightarrow>
   values_get g sh (SHEET_ID e) (or_else (SHEET_RANGE e) ''Sheet1!A:B'') = (took, Rejected err) \<Longrightarrow>
   fetch_fresh g e now c =
     \<lparr>resp = json_response 500 []
               (JObj [(''error'', JStr ''Failed to fetch data from Google Sheets''),
                      (''details'', JStr (message err))]),
      store = c, calls = [(SHEET_ID e, or_else (SHEET_RANGE e) ''Sheet1!A:B'')]\<rparr>"
  by (simp add: fetch_fresh_def)

lemma fetch_fresh_no_rows:
  "initializeGoogleSheets g e = Some sh \<Longrightarrow>
   values_get g sh (SHEET_ID e) (or_else (SHEET_RANGE e) ''Sheet1!A:B'') = (took, Resolved d) \<Longrightarrow>
   d = None \<or> d = Some [] \<Longrightarrow>
   fetch_fresh g e now c =
     \<lparr>resp = json_response 404 [] (JObj [(''error'', JStr ''No data found in spreadsheet'')]),
      store = c, calls = [(SHEET_ID e, or_else (SHEET_RANGE e) ''Sheet1!A:B'')]\<rparr>"
  by (auto simp add: fetch_fresh_def)

lemma fetch_fresh_rows:
  "initializeGoogleSheets g e = Some sh \<Longrightarrow>
   values_get g sh (SHEET_ID e) (or_else (SHEET_RANGE e) ''Sheet1!A:B'')
     = (took, Resolved (Some rows)) \<Longrightarrow>
   rows \<noteq> [] \<Longrightarrow>
   fetch_fresh g e now c =
     \<lparr>resp = json_response 200 [(''Access-Control-Allow-Origin'', ''*'')] (formattedData rows),
      store = cache_set (now + took) ''sheetData'' (formattedData rows) c,
      calls = [(SHEET_ID e, or_else (SHEET_RANGE e) ''Sheet1!A:B'')]\<rparr>"
  by (simp add: fetch_fresh_def)


lemma truthy_formattedData: "truthy (formattedData rows)"
  by (simp add: formattedData_def)

lemma cache_get_after_set:
  "t2 \<le> t + 300000 \<Longrightarrow> cache_get t2 key (cache_set t key v c) = Some v"
  by (simp add: cache_get_def cache_set_def stdTTL_def)

subsection \<open>The loop over the rows\<close>

lemma push_row_if:
  "push_row acc r =
     (if 1 < length r \<and> r ! 1 \<noteq> [] \<and> \<not> isNaN (parseFloat (r ! 1))
      then acc @ [parseFloat (r ! 1)] else acc)"
  by (simp add: push_row_def cell_def Let_def)

lemma foldl_push_row:
  "foldl push_row acc rs =
     acc @ map (\<lambda>r. parseFloat (r ! 1))
             (filter (\<lambda>r. 1 < length r \<and> r ! 1 \<noteq> [] \<and> \<not> isNaN (parseFloat (r ! 1))) rs)"
proof (induction rs arbitrary: acc)
  case Nil
  show ?case by simp
next
  case (Cons r rs)
  show ?case
  proof (cases "1 < length r \<and> r ! 1 \<noteq> [] \<and> \<not> isNaN (parseFloat (r ! 1))")
    case True
    then have "push_row acc r = acc @ [parseFloat (r ! 1)]"
      by (subst push_row_if) simp
    with True Cons.IH [of "acc @ [parseFloat (r ! 1)]"] show ?thesis by simp
  next
    case False
    then have "push_row acc r = acc"
      by (subst push_row_if) simp
    with False Cons.IH [of acc] show ?thesis by simp
  qed
qed

subsection \<open>What the cache holds\<close>














section \<open>The claims\<close>

subsection \<open>C1: the mock path\<close>

text \<open>
  C1 as stated fails. With \<^verbatim>\<open>GOOGLE_CREDENTIALS\<close> unset and the cache empty, the handler
  parses \<^verbatim>\<open>'{}'\<close>, builds the client and calls upstream; when that call is rejected for
  want of credentials the response is the 500 of the error path, not the mock series.
\<close>

theorem unset_credentials_counterexample:
  "GOOGLE_CREDENTIALS (env_of None) = None \<and>
   sheet_data
       (library 40 (Rejected (Error ''The incoming JSON object does not contain a client_email field'')))
       (env_of None) 0 Map.empty =
     \<lparr>resp = json_response 500 []
               (JObj [(''error'', JStr ''Failed to fetch data from Google Sheets''),
                      (''details'',
                       JStr ''The incoming JSON object does not contain a client_email field'')]),
      store = Map.empty, calls = [(Some ''sheet-1'', ''Sheet1!A:B'')]\<rparr> \<and>
   resp (sheet_data
          (library 40 (Rejected (Error ''The incoming JSON object does not contain a client_email field'')))
          (env_of None) 0 Map.empty)
     \<noteq> json_response 200 [] mockData"
  by (simp add: sheet_data_miss cache_miss_empty json_response_def
        fetch_fresh_rejected [OF init_unset values_get_library] env_of_range)
     (simp add: env_of_def)

text \<open>
  C1 (amended): for every request to \<^verbatim>\<open>/api/sheet-data\<close> made while the cache is empty and
  \<^verbatim>\<open>initializeGoogleSheets\<close> returns \<^verbatim>\<open>null\<close> (parsing the credentials or constructing the
  client throws), the handler responds 200 with the fixed series
  \<^verbatim>\<open>{s:"ok", c:[100,105,95,110,115,105,100,90,95,120]}\<close>, makes no upstream call and
  writes nothing to the cache, and a repeated request under the same conditions, at any
  time, does the same again.
\<close>

theorem mock_when_initialization_fails:
  assumes "initializeGoogleSheets g e = None"
  shows "sheet_data g e now Map.empty =
           \<lparr>resp = json_response 200 [] mockData, store = Map.empty, calls = []\<rparr> \<and>
         mockData =
           JObj [(''s'', JStr ''ok''),
                 (''c'', JArr [JNum (Finite False 100), JNum (Finite False 105),
                              JNum (Finite False 95), JNum (Finite False 110),
                              JNum (Finite False 115), JNum (Finite False 105),
                              JNum (Finite False 100), JNum (Finite False 90),
                              JNum (Finite False 95), JNum (Finite False 120)])] \<and>
         sheet_data g e now' (store (sheet_data g e now Map.empty)) =
           \<lparr>resp = json_response 200 [] mockData, store = Map.empty, calls = []\<rparr>"
  using assms by (simp add: sheet_data_miss cache_miss_empty fetch_fresh_mock mockData_def)

text \<open>
  The hypothesis of C1 (amended) holds when \<^verbatim>\<open>GOOGLE_CREDENTIALS\<close> is set to text that is
  not JSON.
\<close>

theorem mock_when_initialization_fails_witness:
  "initializeGoogleSheets (library 40 (Resolved None)) (env_of (Some ''not json'')) = None \<and>
   sheet_data (library 40 (Resolved None)) (env_of (Some ''not json'')) 0 Map.empty =
     \<lparr>resp = json_response 200 [] mockData, store = Map.empty, calls = []\<rparr> \<and>
   sheet_data (library 40 (Resolved None)) (env_of (Some ''not json'')) 7
       (store (sheet_data (library 40 (Resolved None)) (env_of (Some ''not json'')) 0 Map.empty)) =
     \<lparr>resp = json_response 200 [] mockData, store = Map.empty, calls = []\<rparr>"
proof -
  have h: "initializeGoogleSheets (library 40 (Resolved None)) (env_of (Some ''not json'')) = None"
    by (rule init_malformed)
  show ?thesis using h mock_when_initialization_fails [OF h, of 0 7] by blast
qed

subsection \<open>C2: the shape of a successful body\<close>




subsection \<open>C3: the formatter\<close>

text \<open>
  C3 as stated fails: a cell \<^verbatim>\<open>Infinity\<close> parses to a value that is not finite and is not
  \<^verbatim>\<open>NaN\<close>, and the loop, which tests \<^verbatim>\<open>isNaN\<close> only, appends it.
\<close>

theorem finite_only_counterexample:
  "formatted_c [[''Date'', ''Price''], [''2024-01-01'', ''Infinity'']] = [Infinity False] \<and>
   spec_formatter [[''Date'', ''Price''], [''2024-01-01'', ''Infinity'']] = [] \<and>
   formatted_c [[''Date'', ''Price''], [''2024-01-01'', ''Infinity'']]
     \<noteq> spec_formatter [[''Date'', ''Price''], [''2024-01-01'', ''Infinity'']]"
  by (simp add: formatted_c_def dataRows_def push_row_def cell_def spec_formatter_def
        parseFloat_Infinity isNaN_def isFinite_def)

text \<open>
  C3 (amended): for every sequence of raw rows, the list of values that the formatter gives
  equals, in order, the leading-numeric-prefix parse of the cell at index 1 of each row
  after the first, restricted to the rows where that cell is defined, not empty, and parses
  to a value that is not \<^verbatim>\<open>NaN\<close>. The first row is always dropped; rows whose cell is
  undefined, empty or not numeric contribute nothing.
\<close>

theorem formatter_values:
  "formatted_c rows =
     map (\<lambda>r. parseFloat (r ! 1))
       (filter (\<lambda>r. 1 < length r \<and> r ! 1 \<noteq> [] \<and> \<not> isNaN (parseFloat (r ! 1))) (tl rows)) \<and>
   formattedData rows = JObj [(''s'', JStr ''ok''), (''c'', JArr (map JNum (formatted_c rows)))]"
  by (simp add: formatted_c_def dataRows_def foldl_push_row drop_Suc formattedData_def)

subsection \<open>C4: the cached response\<close>

text \<open>
  C4: when a request missed the cache, fetched rows and stored the formatted series at
  time \<open>t1 + took\<close>, a next request that arrives no later than 300 seconds after that,
  whatever the environment and the upstream are by then, responds with the body of the
  first response, makes no upstream call and leaves the cache as it is.
\<close>

theorem cached_response_reused:
  assumes "cache_miss t1 c"
    and "initializeGoogleSheets g e = Some sh"
    and "values_get g sh (SHEET_ID e) (or_else (SHEET_RANGE e) ''Sheet1!A:B'')
           = (took, Resolved (Some rows))"
    and "rows \<noteq> []"
    and "t2 \<le> t1 + took + 300000"
  shows "sheet_data g2 e2 t2 (store (sheet_data g e t1 c)) =
           \<lparr>resp = json_response 200 [] (body (resp (sheet_data g e t1 c))),
            store = store (sheet_data g e t1 c), calls = []\<rparr>"
proof -
  have first: "sheet_data g e t1 c =
     \<lparr>resp = json_response 200 [(''Access-Control-Allow-Origin'', ''*'')] (formattedData rows),
      store = cache_set (t1 + took) ''sheetData'' (formattedData rows) c,
      calls = [(SHEET_ID e, or_else (SHEET_RANGE e) ''Sheet1!A:B'')]\<rparr>"
    using assms(1-4) by (simp add: sheet_data_miss fetch_fresh_rows)
  have "cache_get t2 ''sheetData'' (cache_set (t1 + took) ''sheetData'' (formattedData rows) c)
          = Some (formattedData rows)"
    using assms(5) by (rule cache_get_after_set)
  then have "sheet_data g2 e2 t2 (cache_set (t1 + took) ''sheetData'' (formattedData rows) c) =
      \<lparr>resp = json_response 200 [] (formattedData rows),
       store = cache_set (t1 + took) ''sheetData'' (formattedData rows) c, calls = []\<rparr>"
    by (rule sheet_data_cached) (rule truthy_formattedData)
  then show ?thesis by (simp add: first json_response_def)
qed

text \<open>
  The hypotheses of C4 hold for a fetch on the empty cache at time 0 that takes 40 ms,
  followed by a request at the last millisecond of the window, when upstream is down.
\<close>

theorem cached_response_reused_witness:
  "cache_miss 0 Map.empty \<and>
   initializeGoogleSheets
       (library 40 (Resolved (Some [[''Date'', ''Price''], [''2024-01-01'', ''abc'']])))
       (env_of None) = Some unset_client \<and>
   (300040::nat) \<le> 0 + 40 + 300000 \<and>
   sheet_data (library 9 (Rejected (Error ''down''))) (env_of None) 300040
       (store (sheet_data
                 (library 40 (Resolved (Some [[''Date'', ''Price''], [''2024-01-01'', ''abc'']])))
                 (env_of None) 0 Map.empty)) =
     \<lparr>resp = json_response 200 []
               (body (resp (sheet_data
                  (library 40 (Resolved (Some [[''Date'', ''Price''], [''2024-01-01'', ''abc'']])))
                  (env_of None) 0 Map.empty))),
      store = store (sheet_data
                 (library 40 (Resolved (Some [[''Date'', ''Price''], [''2024-01-01'', ''abc'']])))
                 (env_of None) 0 Map.empty),
      calls = []\<rparr>"
proof -
  have m: "cache_miss 0 Map.empty" by (rule cache_miss_empty)
  have i: "initializeGoogleSheets
       (library 40 (Resolved (Some [[''Date'', ''Price''], [''2024-01-01'', ''abc'']])))
       (env_of None) = Some unset_client"
    by (rule init_unset)
  have v: "values_get (library 40 (Resolved (Some [[''Date'', ''Price''], [''2024-01-01'', ''abc'']])))
             unset_client (SHEET_ID (env_of None))
             (or_else (SHEET_RANGE (env_of None)) ''Sheet1!A:B'')
           = (40, Resolved (Some [[''Date'', ''Price''], [''2024-01-01'', ''abc'']]))"
    by (rule values_get_library)
  have n: "[[''Date'', ''Price''], [''2024-01-01'', ''abc'']] \<noteq> ([] :: row list)" by simp
  have t: "(300040::nat) \<le> 0 + 40 + 300000" by simp
  show ?thesis
    using m i t
      cached_response_reused [OF m i v n t, of "library 9 (Rejected (Error ''down''))" "env_of None"]
    by blast
qed

subsection \<open>C5: no rows at all\<close>

text \<open>
  C5: on a miss of the cache, when the client is built and the upstream read resolves with
  an empty list of rows, the handler responds 404 with the body
  \<^verbatim>\<open>{error:"No data found in spreadsheet"}\<close> and leaves the cache as it was.
\<close>

theorem zero_rows_not_found:
  assumes "cache_miss now c"
    and "initializeGoogleSheets g e = Some sh"
    and "values_get g sh (SHEET_ID e) (or_else (SHEET_RANGE e) ''Sheet1!A:B'')
           = (took, Resolved (Some []))"
  shows "sheet_data g e now c =
           \<lparr>resp = json_response 404 [] (JObj [(''error'', JStr ''No data found in spreadsheet'')]),
            store = c, calls = [(SHEET_ID e, or_else (SHEET_RANGE e) ''Sheet1!A:B'')]\<rparr>"
  using assms by (simp add: sheet_data_miss fetch_fresh_no_rows)

text \<open>The hypotheses of C5 hold on the empty cache for an upstream that returns no rows.\<close>

theorem zero_rows_not_found_witness:
  "cache_miss 0 Map.empty \<and>
   initializeGoogleSheets (library 40 (Resolved (Some []))) (env_of None) = Some unset_client \<and>
   values_get (library 40 (Resolved (Some []))) unset_client (SHEET_ID (env_of None))
     (or_else (SHEET_RANGE (env_of None)) ''Sheet1!A:B'') = (40, Resolved (Some [])) \<and>
   sheet_data (library 40 (Resolved (Some []))) (env_of None) 0 Map.empty =
     \<lparr>resp = json_response 404 [] (JObj [(''error'', JStr ''No data found in spreadsheet'')]),
      store = Map.empty, calls = [(Some ''sheet-1'', ''Sheet1!A:B'')]\<rparr>"
proof -
  have m: "cache_miss 0 Map.empty" by (rule cache_miss_empty)
  have i: "initializeGoogleSheets (library 40 (Resolved (Some []))) (env_of None) = Some unset_client"
    by (rule init_unset)
  have v: "values_get (library 40 (Resolved (Some []))) unset_client (SHEET_ID (env_of None))
     (or_else (SHEET_RANGE (env_of None)) ''Sheet1!A:B'') = (40, Resolved (Some []))"
    by (rule values_get_library)
  show ?thesis using m i v zero_rows_not_found [OF m i v] by (simp add: env_of_range)
qed

subsection \<open>C6: a header row only\<close>

text \<open>
  C6: on a miss of the cache, when the upstream read resolves with exactly one row, the
  handler responds with success and the empty list of values, \<^verbatim>\<open>{s:"ok", c:[]}\<close>, which it
  also stores; the status is not the 404 of the case without rows.
\<close>

theorem header_only_is_success:
  assumes "cache_miss now c"
    and "initializeGoogleSheets g e = Some sh"
    and "values_get g sh (SHEET_ID e) (or_else (SHEET_RANGE e) ''Sheet1!A:B'')
           = (took, Resolved (Some [hdr]))"
  shows "sheet_data g e now c =
           \<lparr>resp = json_response 200 [(''Access-Control-Allow-Origin'', ''*'')]
                     (JObj [(''s'', JStr ''ok''), (''c'', JArr [])]),
            store = cache_set (now + took) ''sheetData''
                      (JObj [(''s'', JStr ''ok''), (''c'', JArr [])]) c,
            calls = [(SHEET_ID e, or_else (SHEET_RANGE e) ''Sheet1!A:B'')]\<rparr> \<and>
         status (resp (sheet_data g e now c)) = 200 \<and>
         status (resp (sheet_data g e now c)) \<noteq> 404"
proof -
  have "formattedData [hdr] = JObj [(''s'', JStr ''ok''), (''c'', JArr [])]"
    by (simp add: formattedData_def formatted_c_def dataRows_def)
  with assms show ?thesis
    by (simp add: sheet_data_miss fetch_fresh_rows json_response_def)
qed

text \<open>The hypotheses of C6 hold for the sheet that has the row \<^verbatim>\<open>["Date","Price"]\<close> only.\<close>

theorem header_only_is_success_witness:
  "cache_miss 0 Map.empty \<and>
   initializeGoogleSheets (library 40 (Resolved (Some [[''Date'', ''Price'']]))) (env_of None)
     = Some unset_client \<and>
   values_get (library 40 (Resolved (Some [[''Date'', ''Price'']]))) unset_client
     (SHEET_ID (env_of None)) (or_else (SHEET_RANGE (env_of None)) ''Sheet1!A:B'')
     = (40, Resolved (Some [[''Date'', ''Price'']])) \<and>
   resp (sheet_data (library 40 (Resolved (Some [[''Date'', ''Price'']]))) (env_of None) 0 Map.empty) =
     json_response 200 [(''Access-Control-Allow-Origin'', ''*'')]
       (JObj [(''s'', JStr ''ok''), (''c'', JArr [])])"
proof -
  have m: "cache_miss 0 Map.empty" by (rule cache_miss_empty)
  have i: "initializeGoogleSheets (library 40 (Resolved (Some [[''Date'', ''Price'']])))
             (env_of None) = Some unset_client"
    by (rule init_unset)
  have v: "values_get (library 40 (Resolved (Some [[''Date'', ''Price'']]))) unset_client
     (SHEET_ID (env_of None)) (or_else (SHEET_RANGE (env_of None)) ''Sheet1!A:B'')
     = (40, Resolved (Some [[''Date'', ''Price'']]))"
    by (rule values_get_library)
  show ?thesis using m i v header_only_is_success [OF m i v] by simp
qed

subsection \<open>C7: the upstream call fails\<close>

text \<open>
  C7: on a miss of the cache, when the client is built and the upstream read is rejected
  with an error of message \<open>m\<close>, the handler responds 500 with the body
  \<^verbatim>\<open>{error:"Failed to fetch data from Google Sheets", details: m}\<close> and leaves the cache
  as it was.
\<close>

theorem upstream_error_is_500:
  assumes "cache_miss now c"
    and "initializeGoogleSheets g e = Some sh"
    and "values_get g sh (SHEET_ID e) (or_else (SHEET_RANGE e) ''Sheet1!A:B'')
           = (took, Rejected (Error m))"
  shows "sheet_data g e now c =
           \<lparr>resp = json_response 500 []
                     (JObj [(''error'', JStr ''Failed to fetch data from Google Sheets''),
                            (''details'', JStr m)]),
            store = c, calls = [(SHEET_ID e, or_else (SHEET_RANGE e) ''Sheet1!A:B'')]\<rparr>"
  using assms by (simp add: sheet_data_miss fetch_fresh_rejected)

text \<open>The hypotheses of C7 hold on the empty cache for an upstream that resets the connection.\<close>

theorem upstream_error_is_500_witness:
  "cache_miss 0 Map.empty \<and>
   initializeGoogleSheets (library 40 (Rejected (Error ''ECONNRESET''))) (env_of None)
     = Some unset_client \<and>
   values_get (library 40 (Rejected (Error ''ECONNRESET''))) unset_client (SHEET_ID (env_of None))
     (or_else (SHEET_RANGE (env_of None)) ''Sheet1!A:B'') = (40, Rejected (Error ''ECONNRESET'')) \<and>
   sheet_data (library 40 (Rejected (Error ''ECONNRESET''))) (env_of None) 0 Map.empty =
     \<lparr>resp = json_response 500 []
               (JObj [(''error'', JStr ''Failed to fetch data from Google Sheets''),
                      (''details'', JStr ''ECONNRESET'')]),
      store = Map.empty, calls = [(Some ''sheet-1'', ''Sheet1!A:B'')]\<rparr>"
proof -
  have m: "cache_miss 0 Map.empty" by (rule cache_miss_empty)
  have i: "initializeGoogleSheets (library 40 (Rejected (Error ''ECONNRESET''))) (env_of None)
             = Some unset_client"
    by (rule init_unset)
  have v: "values_get (library 40 (Rejected (Error ''ECONNRESET''))) unset_client
     (SHEET_ID (env_of None)) (or_else (SHEET_RANGE (env_of None)) ''Sheet1!A:B'')
     = (40, Rejected (Error ''ECONNRESET''))"
    by (rule values_get_library)
  show ?thesis using m i v upstream_error_is_500 [OF m i v] by (simp add: env_of_range)
qed

subsection \<open>C8: clearing the cache\<close>

text \<open>
  C8: in every state of the cache, \<^verbatim>\<open>/api/refresh-cache\<close> removes the key \<^verbatim>\<open>sheetData\<close>,
  whether it was there or not, touches no other key, and responds 200 with
  \<^verbatim>\<open>{status:"Cache cleared"}\<close>; a second request right after the first gives the same
  response and the same cache.
\<close>

theorem refresh_cache_idempotent:
  "refresh_cache c =
     \<lparr>resp = json_response 200 [] (JObj [(''status'', JStr ''Cache cleared'')]),
      store = c(''sheetData'' := None), calls = []\<rparr> \<and>
   store (refresh_cache c) ''sheetData'' = None \<and>
   status (resp (refresh_cache c)) = 200 \<and>
   refresh_cache (store (refresh_cache c)) = refresh_cache c"
  by (simp add: refresh_cache_def cache_del_def json_response_def)

subsection \<open>C9: the cross-origin header\<close>

text \<open>
  C9: the handler sets \<^verbatim>\<open>Access-Control-Allow-Origin: *\<close> exactly when it missed the
  cache, built the client and received at least one row, which is when it writes the cache;
  a response served from the cache, the mock fallback, the 404 and the 500 carry no header
  of the handler. So after such a fetch a request within the window of 300 seconds has the
  same body as the first and different headers.
\<close>

theorem cors_header_on_fresh_fetch_only:
  "headers (resp (sheet_data g e now c)) =
     (if cache_miss now c then
        (case initializeGoogleSheets g e of
           None \<Rightarrow> []
         | Some sh \<Rightarrow>
             (case values_get g sh (SHEET_ID e) (or_else (SHEET_RANGE e) ''Sheet1!A:B'') of
                (took, Rejected err) \<Rightarrow> []
              | (took, Resolved None) \<Rightarrow> []
              | (took, Resolved (Some rows)) \<Rightarrow>
                  if rows = [] then [] else [(''Access-Control-Allow-Origin'', ''*'')]))
      else []) \<and>
   (cache_miss now c \<and> initializeGoogleSheets g e = Some sh \<and>
    values_get g sh (SHEET_ID e) (or_else (SHEET_RANGE e) ''Sheet1!A:B'')
      = (took, Resolved (Some rows)) \<and>
    rows \<noteq> [] \<and> t2 \<le> now + took + 300000 \<longrightarrow>
    store (sheet_data g e now c) = cache_set (now + took) ''sheetData'' (formattedData rows) c \<and>
    body (resp (sheet_data g2 e2 t2 (store (sheet_data g e now c))))
      = body (resp (sheet_data g e now c)) \<and>
    headers (resp (sheet_data g e now c)) = [(''Access-Control-Allow-Origin'', ''*'')] \<and>
    headers (resp (sheet_data g2 e2 t2 (store (sheet_data g e now c)))) = [])"
proof (intro conjI impI)
  show "headers (resp (sheet_data g e now c)) =
     (if cache_miss now c then
        (case initializeGoogleSheets g e of
           None \<Rightarrow> []
         | Some sh \<Rightarrow>
             (case values_get g sh (SHEET_ID e) (or_else (SHEET_RANGE e) ''Sheet1!A:B'') of
                (took, Rejected err) \<Rightarrow> []
              | (took, Resolved None) \<Rightarrow> []
              | (took, Resolved (Some rows)) \<Rightarrow>
                  if rows = [] then [] else [(''Access-Control-Allow-Origin'', ''*'')]))
      else [])"
    by (cases "cache_miss now c")
       (auto simp add: sheet_data_miss sheet_data_hit fetch_fresh_def json_response_def Let_def
          split: option.splits prod.splits reply.splits)
next
  assume h: "cache_miss now c \<and> initializeGoogleSheets g e = Some sh \<and>
    values_get g sh (SHEET_ID e) (or_else (SHEET_RANGE e) ''Sheet1!A:B'')
      = (took, Resolved (Some rows)) \<and>
    rows \<noteq> [] \<and> t2 \<le> now + took + 300000"
  then have first: "sheet_data g e now c =
     \<lparr>resp = json_response 200 [(''Access-Control-Allow-Origin'', ''*'')] (formattedData rows),
      store = cache_set (now + took) ''sheetData'' (formattedData rows) c,
      calls = [(SHEET_ID e, or_else (SHEET_RANGE e) ''Sheet1!A:B'')]\<rparr>"
    by (simp add: sheet_data_miss fetch_fresh_rows)
  from h have "cache_get t2 ''sheetData''
                 (cache_set (now + took) ''sheetData'' (formattedData rows) c)
          = Some (formattedData rows)"
    by (simp add: cache_get_after_set)
  then have second:
    "sheet_data g2 e2 t2 (cache_set (now + took) ''sheetData'' (formattedData rows) c) =
      \<lparr>resp = json_response 200 [] (formattedData rows),
       store = cache_set (now + took) ''sheetData'' (formattedData rows) c, calls = []\<rparr>"
    by (rule sheet_data_cached) (rule truthy_formattedData)
  show "store (sheet_data g e now c) = cache_set (now + took) ''sheetData'' (formattedData rows) c"
    by (simp add: first)
  show "body (resp (sheet_data g2 e2 t2 (store (sheet_data g e now c))))
          = body (resp (sheet_data g e now c))"
    by (simp add: first second json_response_def)
  show "headers (resp (sheet_data g e now c)) = [(''Access-Control-Allow-Origin'', ''*'')]"
    by (simp add: first json_response_def)
  show "headers (resp (sheet_data g2 e2 t2 (store (sheet_data g e now c)))) = []"
    by (simp add: first second json_response_def)
qed

text \<open>
  The hypothesis of the second part of C9 holds for a fetch of two rows on the empty cache
  and a second request one second later.
\<close>

theorem cors_header_on_fresh_fetch_only_witness:
  "cache_miss 0 Map.empty \<and>
   initializeGoogleSheets
       (library 40 (Resolved (Some [[''Date'', ''Price''], [''2024-01-01'', ''abc'']])))
       (env_of None) = Some unset_client \<and>
   values_get (library 40 (Resolved (Some [[''Date'', ''Price''], [''2024-01-01'', ''abc'']])))
       unset_client (SHEET_ID (env_of None)) (or_else (SHEET_RANGE (env_of None)) ''Sheet1!A:B'')
     = (40, Resolved (Some [[''Date'', ''Price''], [''2024-01-01'', ''abc'']])) \<and>
   [[''Date'', ''Price''], [''2024-01-01'', ''abc'']] \<noteq> ([] :: row list) \<and>
   (1000::nat) \<le> 0 + 40 + 300000 \<and>
   body (resp (sheet_data
                 (library 40 (Resolved (Some [[''Date'', ''Price''], [''2024-01-01'', ''abc'']])))
                 (env_of None) 1000
                 (store (sheet_data
                   (library 40 (Resolved (Some [[''Date'', ''Price''], [''2024-01-01'', ''abc'']])))
                   (env_of None) 0 Map.empty))))
     = body (resp (sheet_data
                 (library 40 (Resolved (Some [[''Date'', ''Price''], [''2024-01-01'', ''abc'']])))
                 (env_of None) 0 Map.empty)) \<and>
   headers (resp (sheet_data
                 (library 40 (Resolved (Some [[''Date'', ''Price''], [''2024-01-01'', ''abc'']])))
                 (env_of None) 0 Map.empty))
     = [(''Access-Control-Allow-Origin'', ''*'')] \<and>
   headers (resp (sheet_data
                 (library 40 (Resolved (Some [[''Date'', ''Price''], [''2024-01-01'', ''abc'']])))
                 (env_of None) 1000
                 (store (sheet_data
                   (library 40 (Resolved (Some [[''Date'', ''Price''], [''2024-01-01'', ''abc'']])))
                   (env_of None) 0 Map.empty))))
     = []"
proof -
  have m: "cache_miss 0 Map.empty" by (rule cache_miss_empty)
  have i: "initializeGoogleSheets
       (library 40 (Resolved (Some [[''Date'', ''Price''], [''2024-01-01'', ''abc'']])))
       (env_of None) = Some unset_client"
    by (rule init_unset)
  have v: "values_get (library 40 (Resolved (Some [[''Date'', ''Price''], [''2024-01-01'', ''abc'']])))
       unset_client (SHEET_ID (env_of None)) (or_else (SHEET_RANGE (env_of None)) ''Sheet1!A:B'')
     = (40, Resolved (Some [[''Date'', ''Price''], [''2024-01-01'', ''abc'']]))"
    by (rule values_get_library)
  have n: "[[''Date'', ''Price''], [''2024-01-01'', ''abc'']] \<noteq> ([] :: row list)" by simp
  have t: "(1000::nat) \<le> 0 + 40 + 300000" by simp
  show ?thesis
    using m i v n t
      cors_header_on_fresh_fetch_only
        [of "library 40 (Resolved (Some [[''Date'', ''Price''], [''2024-01-01'', ''abc'']]))"
            "env_of None" 0 Map.empty unset_client 40
            "[[''Date'', ''Price''], [''2024-01-01'', ''abc'']]" 1000
            "library 40 (Resolved (Some [[''Date'', ''Price''], [''2024-01-01'', ''abc'']]))"
            "env_of None"]
    by blast
qed

subsection \<open>C10: a response without a values field\<close>

text \<open>
  C10: on a miss of the cache, when the upstream read resolves with a response that has no
  \<^verbatim>\<open>values\<close> field, the handler responds 404 with
  \<^verbatim>\<open>{error:"No data found in spreadsheet"}\<close> and leaves the cache as it was: the outcome is
  the one it has when upstream resolves with an empty list of rows.
\<close>

theorem missing_values_is_zero_rows:
  assumes "cache_miss now c"
    and "initializeGoogleSheets g e = Some sh"
    and "values_get g sh (SHEET_ID e) (or_else (SHEET_RANGE e) ''Sheet1!A:B'')
           = (took, Resolved None)"
  shows "sheet_data g e now c =
           \<lparr>resp = json_response 404 [] (JObj [(''error'', JStr ''No data found in spreadsheet'')]),
            store = c, calls = [(SHEET_ID e, or_else (SHEET_RANGE e) ''Sheet1!A:B'')]\<rparr> \<and>
         sheet_data g e now c =
           sheet_data (g\<lparr>values_get := \<lambda>s i r. (took, Resolved (Some []))\<rparr>) e now c"
proof -
  have i': "initializeGoogleSheets (g\<lparr>values_get := \<lambda>s i r. (took, Resolved (Some []))\<rparr>) e
              = Some sh"
    using assms(2) by (simp add: initializeGoogleSheets_def Let_def cong: option.case_cong)
  have v': "values_get (g\<lparr>values_get := \<lambda>s i r. (took, Resolved (Some []))\<rparr>) sh (SHEET_ID e)
              (or_else (SHEET_RANGE e) ''Sheet1!A:B'') = (took, Resolved (Some []))"
    by simp
  have a: "sheet_data g e now c =
           \<lparr>resp = json_response 404 [] (JObj [(''error'', JStr ''No data found in spreadsheet'')]),
            store = c, calls = [(SHEET_ID e, or_else (SHEET_RANGE e) ''Sheet1!A:B'')]\<rparr>"
    using assms by (simp add: sheet_data_miss fetch_fresh_no_rows)
  have b: "sheet_data (g\<lparr>values_get := \<lambda>s i r. (took, Resolved (Some []))\<rparr>) e now c =
           \<lparr>resp = json_response 404 [] (JObj [(''error'', JStr ''No data found in spreadsheet'')]),
            store = c, calls = [(SHEET_ID e, or_else (SHEET_RANGE e) ''Sheet1!A:B'')]\<rparr>"
    using assms(1) i' v' by (simp add: sheet_data_miss fetch_fresh_no_rows)
  show ?thesis using a b by simp
qed

text \<open>The hypotheses of C10 hold on the empty cache for a response without \<^verbatim>\<open>values\<close>.\<close>

theorem missing_values_is_zero_rows_witness:
  "cache_miss 0 Map.empty \<and>
   initializeGoogleSheets (library 40 (Resolved None)) (env_of None) = Some unset_client \<and>
   values_get (library 40 (Resolved None)) unset_client (SHEET_ID (env_of None))
     (or_else (SHEET_RANGE (env_of None)) ''Sheet1!A:B'') = (40, Resolved None) \<and>
   sheet_data (library 40 (Resolved None)) (env_of None) 0 Map.empty =
     \<lparr>resp = json_response 404 [] (JObj [(''error'', JStr ''No data found in spreadsheet'')]),
      store = Map.empty, calls = [(Some ''sheet-1'', ''Sheet1!A:B'')]\<rparr>"
proof -
  have m: "cache_miss 0 Map.empty" by (rule cache_miss_empty)
  have i: "initializeGoogleSheets (library 40 (Resolved None)) (env_of None) = Some unset_client"
    by (rule init_unset)
  have v: "values_get (library 40 (Resolved None)) unset_client (SHEET_ID (env_of None))
     (or_else (SHEET_RANGE (env_of None)) ''Sheet1!A:B'') = (40, Resolved None)"
    by (rule values_get_library)
  show ?thesis using m i v missing_values_is_zero_rows [OF m i v] by (simp add: env_of_range)
qed

end
